theory Spec2Isabelle
  imports Main "HOL-Library.Sublist"
begin

section \<open>Strings\<close>

text \<open>
  A JavaScript string is a sequence of code units; it is modelled as a list of characters,
  one \<^typ>\<open>char\<close> per code unit, for the code units below 256. \<open>String.prototype.startsWith\<close> and
  \<open>String.prototype.includes\<close> (both with the default position 0) are written as the
  search they perform: \<open>includes\<close>, here \<open>includes_js\<close>, tries every start index from
  left to right. The empty string is found in every string.
\<close>

type_synonym js_string = string

definition startsWith :: "'a list \<Rightarrow> 'a list \<Rightarrow> bool" where
  "startsWith s t = (take (length t) s = t)"

fun includes_js :: "'a list \<Rightarrow> 'a list \<Rightarrow> bool" where
  "includes_js [] t = (t = [])"
| "includes_js (x # xs) t = (startsWith (x # xs) t \<or> includes_js xs t)"

section \<open>Country table and select options\<close>

text \<open>
  \<open>CountryEntry\<close> and \<open>IsoToCountryMap\<close> are imported from \<open>./countryCodeData\<close>.
  The three fields read by \<open>PhoneInput.tsx\<close> are \<open>iso\<close>, \<open>name\<close> and \<open>code\<close>, all of
  them interpolated into strings. The map itself is a parameter of the development: a
  JavaScript \<open>Map\<close> iterates in insertion order, so it is an association list.
\<close>

record CountryEntry =
  iso :: js_string
  name :: js_string
  code :: js_string

type_synonym IsoToCountryMap = "(js_string \<times> CountryEntry) list"

definition values_of :: "IsoToCountryMap \<Rightarrow> CountryEntry list" where
  "values_of m = map snd m"

record select_option =
  searchTerm :: js_string
  value_opt :: js_string
  country :: CountryEntry

definition createSelectOption :: "CountryEntry \<Rightarrow> select_option" where
  "createSelectOption c =
     \<lparr> searchTerm = iso c @ '' '' @ name c @ '' '' @ code c,
       value_opt = iso c @ '' '' @ name c @ '' '' @ code c,
       country = c \<rparr>"

definition countryOptions :: "IsoToCountryMap \<Rightarrow> select_option list" where
  "countryOptions m = map createSelectOption (values_of m)"

text \<open>
  \<open>selectedCountryOption\<close> is \<open>countryOptions.find(o => o.country.iso === iso) ||
  countryOptions[0]\<close>. \<open>find\<close> yields the first match or \<open>undefined\<close>; an option object
  is never falsy, so the right operand is taken exactly when nothing matches. Index 0 of an
  empty array is \<open>undefined\<close>, which is \<open>None\<close> here.
\<close>

definition selectedCountryOption :: "select_option list \<Rightarrow> js_string \<Rightarrow> select_option option" where
  "selectedCountryOption opts current_iso =
     (case find (\<lambda>opt. iso (country opt) = current_iso) opts of
        Some found \<Rightarrow> Some found
      | None \<Rightarrow> (case opts of [] \<Rightarrow> None | first # _ \<Rightarrow> Some first))"

text \<open>
  The comparator handed to the select box:
  \<open>option.searchTerm.toLowerCase().includes(term.toLowerCase())\<close>. The built-in
  \<open>toLowerCase\<close> is a parameter \<open>lc\<close> of the comparator, so that what is proved of the
  comparator holds for the built-in on every string.

  \<open>toLowerCase_js\<close> is the built-in on the strings of this development, whose code
  units are below 256: the letters A to Z and the capital letters of the range 0xC0 to
  0xDE (all of that range but the multiplication sign 0xD7) are moved up by 0x20, and every
  other code unit stays as it is. No rule of the built-in that looks at the neighbours of
  a character applies below 256, so it works character by character there.
\<close>

definition comparator :: "(js_string \<Rightarrow> js_string) \<Rightarrow> js_string \<Rightarrow> select_option \<Rightarrow> bool" where
  "comparator lc search opt = includes_js (lc (searchTerm opt)) (lc search)"

definition toLowerCase_char :: "char \<Rightarrow> char" where
  "toLowerCase_char c =
     (let n = (of_char c :: nat) in
      if (65 \<le> n \<and> n \<le> 90) \<or> (192 \<le> n \<and> n \<le> 222 \<and> n \<noteq> 215)
      then char_of (n + 32) else c)"

definition toLowerCase_js :: "js_string \<Rightarrow> js_string" where
  "toLowerCase_js s = map toLowerCase_char s"

text \<open>
  Modelled from the spec: the searchable-select primitive (\<open>Select\<close>, imported from
  \<open>../../elements\<close>) is not part of this file. It is taken to show, for a search term,
  the options that the comparator it was given accepts, in the order of the option list.
\<close>

definition Select_shown :: "(js_string \<Rightarrow> select_option \<Rightarrow> bool) \<Rightarrow> js_string \<Rightarrow> select_option list \<Rightarrow> select_option list" where
  "Select_shown cmp search opts = filter (cmp search) opts"

section \<open>Events, hook calls and effects\<close>

text \<open>
  The handlers of the component return nothing; what they do is call the setters of the
  hook \<open>useFormattedPhoneNumber\<close>, \<open>preventDefault\<close> on the event, \<open>focus\<close> on the
  input element and the \<open>onChange\<close> prop. A handler is therefore modelled by the list of
  effects it performs, in the order of the source.

  \<open>countryOptions\<close> is a \<open>const\<close> binding of an array, and a JavaScript array and the
  objects in it can be written to by any code that holds them. Such a write is the effect
  \<open>Mutate\<close>, with the function from the old content of the array to the new one. A
  function of the caller that is called with a paste event is the effect \<open>InvokePaste\<close>.
\<close>

record ClipboardEvent =
  clipboardData_text :: js_string

record ChangeEvent =
  target_value :: js_string

datatype hook_call = SetNumber js_string | SetIso js_string | SetNumberAndIso js_string

datatype error = TypeError | ListenerError

datatype element = HTMLInputElement

datatype callback = HandlePaste | HandlePhoneNumberChange | External js_string

datatype effect =
    PreventDefault
  | Hook hook_call
  | Focus element
  | Invoke callback ChangeEvent
  | InvokePaste callback ClipboardEvent
  | Mutate "select_option list \<Rightarrow> select_option list"
  | Throw error

definition handlePaste :: "ClipboardEvent \<Rightarrow> effect list" where
  "handlePaste e =
     PreventDefault #
     (let inputValue = clipboardData_text e in
      if includes_js inputValue ''+'' then [Hook (SetNumberAndIso inputValue)]
      else [Hook (SetNumber inputValue)])"

definition handlePhoneNumberChange :: "ChangeEvent \<Rightarrow> effect list" where
  "handlePhoneNumberChange e =
     (let inputValue = target_value e in
      if includes_js inputValue ''+'' then [Hook (SetNumberAndIso inputValue)]
      else [Hook (SetNumber inputValue)])"

text \<open>
  The \<open>onChange\<close> of the select box: \<open>setIso(option.country.iso)\<close>, then
  \<open>phoneInputRef.current?.focus()\<close>. The ref holds the input element while the input is
  mounted and \<open>null\<close> otherwise.
\<close>

definition Select_onChange :: "element option \<Rightarrow> select_option \<Rightarrow> effect list" where
  "Select_onChange phoneInputRef_current opt =
     Hook (SetIso (iso (country opt))) #
     (case phoneInputRef_current of None \<Rightarrow> [] | Some el \<Rightarrow> [Focus el])"

definition hookCalls :: "effect list \<Rightarrow> hook_call list" where
  "hookCalls effs = concat (map (\<lambda>e. case e of Hook c \<Rightarrow> [c] | _ \<Rightarrow> []) effs)"

text \<open>
  The calls of the caller's \<open>onChange\<close> in a list of effects, and the writes to the option
  list in it.
\<close>

definition onChange_calls :: "effect list \<Rightarrow> (callback \<times> ChangeEvent) list" where
  "onChange_calls effs = concat (map (\<lambda>e. case e of Invoke f ev \<Rightarrow> [(f, ev)] | _ \<Rightarrow> []) effs)"

definition writes :: "effect list \<Rightarrow> (select_option list \<Rightarrow> select_option list) list" where
  "writes effs = concat (map (\<lambda>e. case e of Mutate f \<Rightarrow> [f] | _ \<Rightarrow> []) effs)"

definition apply_writes :: "(select_option list \<Rightarrow> select_option list) list \<Rightarrow> select_option list \<Rightarrow> select_option list" where
  "apply_writes fs opts = foldl (\<lambda>xs f. f xs) opts fs"

section \<open>Props\<close>

text \<open>
  The props of the component are an object; it is a map from prop names to values. A key
  can be missing, and a key that is there can hold \<open>null\<close> or \<open>undefined\<close>. The
  component destructures \<open>onChange\<close>, \<open>value\<close>, \<open>locationBasedCountryIso\<close> and
  \<open>sx\<close> and keeps the others as \<open>rest\<close>. A function value is named: the component's own
  two handlers, or a function of the caller.
\<close>

datatype prop_value =
  Str js_string | Num nat | Bool bool | Fn callback | Null | Undefined | Other

type_synonym props = "js_string \<rightharpoonup> prop_value"

definition rest_of :: "props \<Rightarrow> props" where
  "rest_of p = p |` (- {''onChange'', ''value'', ''locationBasedCountryIso'', ''sx''})"

text \<open>
  \<open>callOnChangeProp\<close> is \<open>onChangeProp?.({ target: { value: numberWithCode } })\<close>.
  The optional call does nothing when \<open>onChangeProp\<close> is \<open>undefined\<close>, which a missing key
  reads as, or \<open>null\<close>; it calls a function; and calling any other value raises a
  \<open>TypeError\<close>.
\<close>

fun optional_call :: "prop_value option \<Rightarrow> ChangeEvent \<Rightarrow> effect list" where
  "optional_call None ev = []"
| "optional_call (Some Undefined) ev = []"
| "optional_call (Some Null) ev = []"
| "optional_call (Some (Fn f)) ev = [Invoke f ev]"
| "optional_call (Some v) ev = [Throw TypeError]"

definition callOnChangeProp :: "props \<Rightarrow> js_string \<Rightarrow> effect list" where
  "callOnChangeProp p nwc = optional_call (p ''onChange'') \<lparr> target_value = nwc \<rparr>"

text \<open>
  React's \<open>useEffect(effect, [dep])\<close>: the effect runs after the first render, when
  there are no previous dependencies, and after every later render whose dependency
  differs from that of the render before.
\<close>

definition useEffect :: "'d option \<Rightarrow> 'd \<Rightarrow> effect list \<Rightarrow> effect list" where
  "useEffect prev_dep dep eff = (if prev_dep = Some dep then [] else eff)"

text \<open>
  The props given to the number input, in the order of the JSX: the later attribute wins,
  so the spread \<open>{...rest}\<close> at the end overrides what stands before it, with every key
  that \<open>rest\<close> has, whatever the key holds. The style object and the merged ref are not
  looked into; React keeps \<open>ref\<close> out of the props, so the props of a caller have no such
  key.
\<close>

definition Input_props :: "js_string \<Rightarrow> props \<Rightarrow> props" where
  "Input_props fmt p =
     [''value'' \<mapsto> Str fmt,
      ''onPaste'' \<mapsto> Fn HandlePaste,
      ''onChange'' \<mapsto> Fn HandlePhoneNumberChange,
      ''maxLength'' \<mapsto> Num 25,
      ''type'' \<mapsto> Str ''tel'',
      ''sx'' \<mapsto> Other,
      ''ref'' \<mapsto> Other] ++ rest_of p"

text \<open>
  What a paste on the number input runs is the \<open>onPaste\<close> that the input was given:
  \<open>handlePaste\<close>, unless the caller's props have an \<open>onPaste\<close> of their own. A function
  of the caller is called with the event; with \<open>null\<close> or \<open>undefined\<close> there is no
  listener; React refuses a listener that is neither. A text change always runs
  \<open>handlePhoneNumberChange\<close>, since \<open>onChange\<close> is not in \<open>rest\<close>.
\<close>

fun paste_listener :: "prop_value option \<Rightarrow> ClipboardEvent \<Rightarrow> effect list" where
  "paste_listener (Some (Fn HandlePaste)) e = handlePaste e"
| "paste_listener (Some (Fn f)) e = [InvokePaste f e]"
| "paste_listener None e = []"
| "paste_listener (Some Undefined) e = []"
| "paste_listener (Some Null) e = []"
| "paste_listener (Some v) e = [Throw ListenerError]"

section \<open>The hook and the component\<close>

text \<open>
  \<open>useFormattedPhoneNumber\<close> is imported from \<open>./useFormattedPhoneNumber\<close>. The
  component uses three setters and three values derived from the hook's state; they are
  the parameter \<open>hk\<close>, over any type \<open>'s\<close> of hook states.
\<close>

record 's useFormattedPhoneNumber =
  setNumber :: "js_string \<Rightarrow> 's \<Rightarrow> 's"
  setIso :: "js_string \<Rightarrow> 's \<Rightarrow> 's"
  setNumberAndIso :: "js_string \<Rightarrow> 's \<Rightarrow> 's"
  numberWithCode :: "'s \<Rightarrow> js_string"
  iso_state :: "'s \<Rightarrow> js_string"
  formattedNumber :: "'s \<Rightarrow> js_string"

fun dispatch :: "'s useFormattedPhoneNumber \<Rightarrow> hook_call \<Rightarrow> 's \<Rightarrow> 's" where
  "dispatch hk (SetNumber s) st = setNumber hk s st"
| "dispatch hk (SetIso i) st = setIso hk i st"
| "dispatch hk (SetNumberAndIso s) st = setNumberAndIso hk s st"

definition apply_calls :: "'s useFormattedPhoneNumber \<Rightarrow> hook_call list \<Rightarrow> 's \<Rightarrow> 's" where
  "apply_calls hk cs st = foldl (\<lambda>s c. dispatch hk c s) st cs"

text \<open>
  What one render of \<open>PhoneInputBase\<close> shows. Reading \<open>.value\<close> of an undefined
  \<open>selectedCountryOption\<close> raises a \<open>TypeError\<close>.
\<close>

record view =
  Select_value :: js_string
  Select_options :: "select_option list"
  SelectButton_text :: js_string
  dial_code_text :: js_string
  Input :: props

definition PhoneInputBase :: "select_option list \<Rightarrow> 's useFormattedPhoneNumber \<Rightarrow> props \<Rightarrow> 's \<Rightarrow> error + view" where
  "PhoneInputBase opts hk p st =
     (case selectedCountryOption opts (iso_state hk st) of
        None \<Rightarrow> Inl TypeError
      | Some sel \<Rightarrow>
          Inr \<lparr> Select_value = value_opt sel,
                Select_options = opts,
                SelectButton_text = iso_state hk st,
                dial_code_text = ''+'' @ code (country sel),
                Input = Input_props (formattedNumber hk st) p \<rparr>)"

text \<open>
  The running component: the module-level array \<open>countryOptions\<close>, the props of the last
  render, the state of the hook, the dependency of the last run of the effect, and the
  effects performed so far.

  An event of the user runs the listener that the last render bound; a render caused by
  the parent brings new props. The setters called change the hook's state, the writes
  performed change the array, the component renders again and the effect
  \<open>useEffect(callOnChangeProp, [numberWithCode])\<close> is considered, with the
  \<open>numberWithCode\<close> and the \<open>onChange\<close> of that render.
\<close>

record 's world =
  module_countryOptions :: "select_option list"
  current_props :: props
  hook_state :: 's
  effect_dep :: "js_string option"
  performed :: "effect list"

datatype ui_event =
    Paste ClipboardEvent
  | Change ChangeEvent
  | SelectCountry select_option
  | Rerender props

fun handler_effects :: "props \<Rightarrow> js_string \<Rightarrow> element option \<Rightarrow> ui_event \<Rightarrow> effect list" where
  "handler_effects p fmt r (Paste e) = paste_listener (Input_props fmt p ''onPaste'') e"
| "handler_effects p fmt r (Change e) = handlePhoneNumberChange e"
| "handler_effects p fmt r (SelectCountry opt) = Select_onChange r opt"
| "handler_effects p fmt r (Rerender p') = []"

fun props_after :: "props \<Rightarrow> ui_event \<Rightarrow> props" where
  "props_after p (Rerender p') = p'"
| "props_after p ev = p"

definition mount :: "IsoToCountryMap \<Rightarrow> 's useFormattedPhoneNumber \<Rightarrow> props \<Rightarrow> 's \<Rightarrow> 's world" where
  "mount m hk p st0 =
     (let nwc = numberWithCode hk st0;
          post = useEffect None nwc (callOnChangeProp p nwc)
      in \<lparr> module_countryOptions = apply_writes (writes post) (countryOptions m),
           current_props = p,
           hook_state = st0,
           effect_dep = Some nwc,
           performed = post \<rparr>)"

definition step :: "'s useFormattedPhoneNumber \<Rightarrow> element option \<Rightarrow> 's world \<Rightarrow> ui_event \<Rightarrow> 's world" where
  "step hk r w ev =
     (let effs = handler_effects (current_props w) (formattedNumber hk (hook_state w)) r ev;
          p' = props_after (current_props w) ev;
          st' = apply_calls hk (hookCalls effs) (hook_state w);
          nwc = numberWithCode hk st';
          post = useEffect (effect_dep w) nwc (callOnChangeProp p' nwc)
      in \<lparr> module_countryOptions = apply_writes (writes (effs @ post)) (module_countryOptions w),
           current_props = p',
           hook_state = st',
           effect_dep = Some nwc,
           performed = performed w @ effs @ post \<rparr>)"

definition run :: "'s useFormattedPhoneNumber \<Rightarrow> 's world \<Rightarrow> (element option \<times> ui_event) list \<Rightarrow> 's world" where
  "run hk w evs = foldl (\<lambda>w' (r, ev). step hk r w' ev) w evs"

section \<open>Sample data\<close>

text \<open>
  Two entries in the shape of the country table, and a stand-in for the hook: its state is
  the pair of the current ISO and the local number, and \<open>setNumberAndIso\<close> drops the
  \<open>+\<close> and takes the second entry as the country. They are not the table and the hook of
  the repository; they serve to run the definitions above on concrete inputs. Every
  theorem below is about any table and any hook.
\<close>

definition sample_map :: IsoToCountryMap where
  "sample_map =
     [(''us'', \<lparr> iso = ''us'', name = ''United States'', code = ''1'' \<rparr>),
      (''gr'', \<lparr> iso = ''gr'', name = ''Greece'', code = ''30'' \<rparr>)]"

definition sample_hook :: "(js_string \<times> js_string) useFormattedPhoneNumber" where
  "sample_hook =
     \<lparr> setNumber = (\<lambda>s (i, n). (i, s)),
       setIso = (\<lambda>j (i, n). (j, n)),
       setNumberAndIso = (\<lambda>s (i, n). (''gr'', filter (\<lambda>c. c \<noteq> CHR ''+'') s)),
       numberWithCode = (\<lambda>(i, n). if n = [] then [] else ''+'' @ n),
       iso_state = fst,
       formattedNumber = (\<lambda>(i, n). n) \<rparr>"

section \<open>Facts about strings\<close>

lemma startsWith_prefix: "startsWith s t \<longleftrightarrow> prefix t s"
  by (auto simp: startsWith_def prefix_def) (metis append_take_drop_id)

lemma includes_sublist: "includes_js s t \<longleftrightarrow> sublist t s"
proof (induction s)
  case Nil
  then show ?case by simp
next
  case (Cons x xs)
  show ?case
  proof (cases t)
    case Nil
    then show ?thesis by (simp add: startsWith_def)
  next
    case (Cons y ys)
    with Cons.IH show ?thesis
      by (simp add: startsWith_prefix sublist_Cons_right)
  qed
qed

lemma includes_single: "includes_js s [c] \<longleftrightarrow> c \<in> set s"
  by (induction s) (auto simp: startsWith_def)

section \<open>Facts about the option list and the props\<close>

lemma find_map_createSelectOption:
  "find (\<lambda>opt. iso (country opt) = i) (map createSelectOption cs) =
   map_option createSelectOption (find (\<lambda>c. iso c = i) cs)"
  by (induction cs) (simp_all add: createSelectOption_def)

lemma find_distinct_iso:
  "distinct (map iso cs) \<Longrightarrow> c \<in> set cs \<Longrightarrow> find (\<lambda>x. iso x = iso c) cs = Some c"
  by (induction cs) (auto simp: image_iff)

lemma rest_of_maxLength: "rest_of p ''maxLength'' = p ''maxLength''"
  by (simp add: rest_of_def)

lemma rest_of_value: "rest_of p ''value'' = None"
  by (simp add: rest_of_def)

lemma writes_append: "writes (xs @ ys) = writes xs @ writes ys"
  by (simp add: writes_def)

lemma writes_handlePaste: "writes (handlePaste e) = []"
  by (simp add: writes_def handlePaste_def Let_def)

lemma writes_handlePhoneNumberChange: "writes (handlePhoneNumberChange e) = []"
  by (simp add: writes_def handlePhoneNumberChange_def Let_def)

lemma writes_Select_onChange: "writes (Select_onChange r opt) = []"
  by (cases r) (simp_all add: writes_def Select_onChange_def)

lemma writes_paste_listener: "writes (paste_listener v e) = []"
  by (induction v e rule: paste_listener.induct) (simp_all add: writes_handlePaste, simp_all add: writes_def)

lemma writes_handler_effects: "writes (handler_effects p fmt r ev) = []"
  by (cases ev)
     (simp_all add: writes_paste_listener writes_handlePhoneNumberChange writes_Select_onChange,
      simp add: writes_def)

lemma writes_optional_call: "writes (optional_call v ev) = []"
  by (induction v ev rule: optional_call.induct) (simp_all add: writes_def)

lemma writes_callOnChangeProp: "writes (callOnChangeProp p nwc) = []"
  by (simp add: callOnChangeProp_def writes_optional_call)

lemma writes_useEffect: "writes (useEffect prev dep (callOnChangeProp p nwc)) = []"
  by (simp add: useEffect_def writes_callOnChangeProp) (simp add: writes_def)

lemma apply_writes_Mutate: "apply_writes (writes [Mutate f]) opts = f opts"
  by (simp add: apply_writes_def writes_def)

lemma mount_module_countryOptions:
  "module_countryOptions (mount m hk p st0) = countryOptions m"
  by (simp add: mount_def Let_def writes_useEffect apply_writes_def)

lemma step_module_countryOptions:
  "module_countryOptions (step hk r w ev) = module_countryOptions w"
  by (simp add: step_def Let_def writes_append writes_handler_effects writes_useEffect
      apply_writes_def)

lemma run_module_countryOptions:
  "module_countryOptions (run hk w evs) = module_countryOptions w"
  unfolding run_def
  by (induction evs arbitrary: w) (auto simp: step_module_countryOptions)

lemma effect_dep_step:
  "effect_dep (step hk r w ev) = Some (numberWithCode hk (hook_state (step hk r w ev)))"
  by (simp add: step_def Let_def)

lemma effect_dep_run:
  "effect_dep w = Some (numberWithCode hk (hook_state w)) \<Longrightarrow>
   effect_dep (run hk w evs) = Some (numberWithCode hk (hook_state (run hk w evs)))"
  unfolding run_def
  by (induction evs arbitrary: w) (auto simp: effect_dep_step)

lemma effect_dep_mount:
  "effect_dep (mount m hk p st0) = Some (numberWithCode hk (hook_state (mount m hk p st0)))"
  by (simp add: mount_def Let_def)

lemma performed_step:
  "performed (step hk r w ev) =
     performed w @ handler_effects (current_props w) (formattedNumber hk (hook_state w)) r ev @
     useEffect (effect_dep w) (numberWithCode hk (hook_state (step hk r w ev)))
       (callOnChangeProp (current_props (step hk r w ev))
          (numberWithCode hk (hook_state (step hk r w ev))))"
  by (simp add: step_def Let_def)

lemma onChange_calls_append: "onChange_calls (xs @ ys) = onChange_calls xs @ onChange_calls ys"
  by (simp add: onChange_calls_def)

lemma onChange_calls_paste_listener: "onChange_calls (paste_listener v e) = []"
  by (induction v e rule: paste_listener.induct)
     (simp_all add: onChange_calls_def handlePaste_def Let_def)

lemma onChange_calls_Select_onChange: "onChange_calls (Select_onChange r opt) = []"
  by (cases r) (simp_all add: onChange_calls_def Select_onChange_def)

lemma onChange_calls_handler_effects: "onChange_calls (handler_effects p fmt r ev) = []"
  by (cases ev)
     (simp_all add: onChange_calls_paste_listener onChange_calls_Select_onChange,
      simp_all add: onChange_calls_def handlePhoneNumberChange_def Let_def)

lemma onChange_calls_Nil: "onChange_calls [] = []"
  by (simp add: onChange_calls_def)

lemma onChange_calls_callOnChangeProp_Fn:
  "p ''onChange'' = Some (Fn f) \<Longrightarrow>
   onChange_calls (callOnChangeProp p nwc) = [(f, \<lparr> target_value = nwc \<rparr>)]"
  by (simp add: callOnChangeProp_def onChange_calls_def)

lemma onChange_calls_callOnChangeProp_nullish:
  "p ''onChange'' = None \<or> p ''onChange'' = Some Undefined \<or> p ''onChange'' = Some Null \<Longrightarrow>
   onChange_calls (callOnChangeProp p nwc) = []"
  by (auto simp: callOnChangeProp_def onChange_calls_def)

lemma toLowerCase_char_idem: "toLowerCase_char (toLowerCase_char c) = toLowerCase_char c"
  by (simp add: toLowerCase_char_def Let_def)

lemma toLowerCase_js_idem: "toLowerCase_js (toLowerCase_js s) = toLowerCase_js s"
  by (simp add: toLowerCase_js_def toLowerCase_char_idem)

lemma toLowerCase_js_append:
  "toLowerCase_js (a @ b) = toLowerCase_js a @ toLowerCase_js b"
  by (simp add: toLowerCase_js_def)

lemma sublist_fields:
  "sublist t a \<or> sublist t b \<or> sublist t c \<Longrightarrow> sublist t (a @ x @ b @ y @ c)"
  by (meson sublist_append_leftI sublist_append_rightI sublist_order.order_trans sublist_appendI)

lemma comparator_sublist:
  "comparator lc search opt \<longleftrightarrow> sublist (lc search) (lc (searchTerm opt))"
  by (simp add: comparator_def includes_sublist)

lemma comparator_field:
  assumes hom: "\<forall>a b. lc (a @ b) = lc a @ lc b"
    and field: "sublist (lc search) (lc (iso c)) \<or> sublist (lc search) (lc (name c)) \<or>
        sublist (lc search) (lc (code c))"
  shows "comparator lc search (createSelectOption c)"
proof -
  have "lc (iso c @ '' '' @ name c @ '' '' @ code c) =
        lc (iso c) @ lc '' '' @ lc (name c) @ lc '' '' @ lc (code c)"
    by (simp only: hom)
  moreover have "sublist (lc search) (lc (iso c) @ lc '' '' @ lc (name c) @ lc '' '' @ lc (code c))"
    using field by (rule sublist_fields)
  ultimately show ?thesis
    by (simp add: comparator_sublist createSelectOption_def)
qed

section \<open>Routing of typed and pasted text\<close>

text \<open>
  Claim C1. For every string delivered by a text change or by a paste: if it contains the
  character \<open>+\<close>, the handler calls \<open>setNumberAndIso\<close> with the string; otherwise it
  calls \<open>setNumber\<close> with the string and makes no other call to the hook, so that the
  state of the hook changes by \<open>setNumber\<close> alone. The paste handler does the same after
  \<open>preventDefault\<close>.
\<close>

theorem handlers_route_on_plus:
  "handlePhoneNumberChange e =
     (if CHR ''+'' \<in> set (target_value e) then [Hook (SetNumberAndIso (target_value e))]
      else [Hook (SetNumber (target_value e))])
   \<and> handlePaste pe =
     PreventDefault #
     (if CHR ''+'' \<in> set (clipboardData_text pe) then [Hook (SetNumberAndIso (clipboardData_text pe))]
      else [Hook (SetNumber (clipboardData_text pe))])
   \<and> (CHR ''+'' \<notin> set (target_value e) \<longrightarrow>
        hookCalls (handlePhoneNumberChange e) = [SetNumber (target_value e)]
        \<and> apply_calls hk (hookCalls (handlePhoneNumberChange e)) st = setNumber hk (target_value e) st)
   \<and> (CHR ''+'' \<notin> set (clipboardData_text pe) \<longrightarrow>
        hookCalls (handlePaste pe) = [SetNumber (clipboardData_text pe)]
        \<and> apply_calls hk (hookCalls (handlePaste pe)) st = setNumber hk (clipboardData_text pe) st)
   \<and> (CHR ''+'' \<in> set (target_value e) \<longrightarrow>
        apply_calls hk (hookCalls (handlePhoneNumberChange e)) st = setNumberAndIso hk (target_value e) st)
   \<and> (CHR ''+'' \<in> set (clipboardData_text pe) \<longrightarrow>
        apply_calls hk (hookCalls (handlePaste pe)) st = setNumberAndIso hk (clipboardData_text pe) st)"
  by (simp add: handlePhoneNumberChange_def handlePaste_def includes_single hookCalls_def
      apply_calls_def Let_def)

theorem handlers_route_on_plus_witness:
  "CHR ''+'' \<notin> set ''5551234''
   \<and> hookCalls (handlePhoneNumberChange \<lparr> target_value = ''5551234'' \<rparr>) = [SetNumber ''5551234'']
   \<and> apply_calls sample_hook (hookCalls (handlePhoneNumberChange \<lparr> target_value = ''5551234'' \<rparr>))
        (''us'', ''1'') = (''us'', ''5551234'')
   \<and> apply_calls sample_hook (hookCalls (handlePaste \<lparr> clipboardData_text = ''5551234'' \<rparr>))
        (''us'', ''1'') = (''us'', ''5551234'')
   \<and> CHR ''+'' \<in> set ''+30 21''
   \<and> apply_calls sample_hook (hookCalls (handlePhoneNumberChange \<lparr> target_value = ''+30 21'' \<rparr>))
        (''us'', ''1'') = (''gr'', ''30 21'')
   \<and> apply_calls sample_hook (hookCalls (handlePaste \<lparr> clipboardData_text = ''+30 21'' \<rparr>))
        (''us'', ''1'') = (''gr'', ''30 21'')"
  using handlers_route_on_plus [where e = "\<lparr> target_value = ''5551234'' \<rparr>"
      and pe = "\<lparr> clipboardData_text = ''5551234'' \<rparr>" and hk = sample_hook and st = "(''us'', ''1'')"]
    handlers_route_on_plus [where e = "\<lparr> target_value = ''+30 21'' \<rparr>"
      and pe = "\<lparr> clipboardData_text = ''+30 21'' \<rparr>" and hk = sample_hook and st = "(''us'', ''1'')"]
  by (simp add: sample_hook_def hookCalls_def apply_calls_def)

text \<open>
  Claim C4, as amended. The whole number and the country are replaced exactly when the
  string contains a \<open>+\<close>, at any position. A string that starts with \<open>+\<close> contains one,
  so a \<open>+\<close> prefix is sufficient for the replacement, but it is not necessary.
\<close>

theorem routing_by_containment:
  "(hookCalls (handlePhoneNumberChange e) = [SetNumberAndIso (target_value e)]
       \<longleftrightarrow> CHR ''+'' \<in> set (target_value e))
   \<and> (hookCalls (handlePaste pe) = [SetNumberAndIso (clipboardData_text pe)]
       \<longleftrightarrow> CHR ''+'' \<in> set (clipboardData_text pe))
   \<and> (startsWith s ''+'' \<longrightarrow> CHR ''+'' \<in> set s)"
proof -
  have "startsWith s ''+'' \<longrightarrow> CHR ''+'' \<in> set s"
    by (cases s) (auto simp: startsWith_def)
  then show ?thesis
    by (simp add: handlePhoneNumberChange_def handlePaste_def includes_single hookCalls_def Let_def)
qed

theorem routing_by_containment_witness:
  "startsWith ''+30 21'' ''+''
   \<and> CHR ''+'' \<in> set ''+30 21''
   \<and> hookCalls (handlePhoneNumberChange \<lparr> target_value = ''+30 21'' \<rparr>) = [SetNumberAndIso ''+30 21'']
   \<and> hookCalls (handlePaste \<lparr> clipboardData_text = ''+30 21'' \<rparr>) = [SetNumberAndIso ''+30 21'']"
  using routing_by_containment [where e = "\<lparr> target_value = ''+30 21'' \<rparr>"
      and pe = "\<lparr> clipboardData_text = ''+30 21'' \<rparr>" and s = "''+30 21''"]
  by (simp add: startsWith_def)

text \<open>
  The claim as it is written, with the prefix, fails on \<open>1+2\<close>: the string does not start
  with \<open>+\<close>, and both handlers call \<open>setNumberAndIso\<close>.
\<close>

theorem routing_prefix_counterexample:
  "handlePhoneNumberChange \<lparr> target_value = ''1+2'' \<rparr> = [Hook (SetNumberAndIso ''1+2'')]
   \<and> handlePaste \<lparr> clipboardData_text = ''1+2'' \<rparr> = [PreventDefault, Hook (SetNumberAndIso ''1+2'')]
   \<and> \<not> startsWith ''1+2'' ''+''"
  by (simp add: handlePhoneNumberChange_def handlePaste_def startsWith_def)

text \<open>
  Claim C6. A paste and a text change that carry the same string make the same call to
  the hook, with the same argument, and so change the state of the hook in the same way;
  the paste handler is the change handler after \<open>preventDefault\<close>.
\<close>

theorem paste_and_change_same_calls:
  "hookCalls (handlePaste \<lparr> clipboardData_text = s \<rparr>) =
     hookCalls (handlePhoneNumberChange \<lparr> target_value = s \<rparr>)
   \<and> apply_calls hk (hookCalls (handlePaste \<lparr> clipboardData_text = s \<rparr>)) st =
     apply_calls hk (hookCalls (handlePhoneNumberChange \<lparr> target_value = s \<rparr>)) st
   \<and> handlePaste \<lparr> clipboardData_text = s \<rparr> =
     PreventDefault # handlePhoneNumberChange \<lparr> target_value = s \<rparr>"
  by (simp add: handlePhoneNumberChange_def handlePaste_def hookCalls_def Let_def)

section \<open>The selected country\<close>

text \<open>
  Claim C2. The selected option is the option of the table entry whose \<open>iso\<close> equals the
  current ISO: of the first such entry, which is the only one when the ISO codes of the
  table are distinct. When no entry of a non-empty table has the current ISO, the
  selected option is that of the first entry of the table, and no error arises.
\<close>

theorem selectedCountryOption_lookup:
  "(c \<in> set (values_of m) \<and> distinct (map iso (values_of m)) \<longrightarrow>
      selectedCountryOption (countryOptions m) (iso c) = Some (createSelectOption c))
   \<and> (i \<in> iso ` set (values_of m) \<longrightarrow>
      (\<exists>c \<in> set (values_of m). iso c = i \<and>
         selectedCountryOption (countryOptions m) i = Some (createSelectOption c)))
   \<and> (i \<notin> iso ` set (values_of m) \<and> values_of m \<noteq> [] \<longrightarrow>
      selectedCountryOption (countryOptions m) i = Some (createSelectOption (hd (values_of m))))
   \<and> (values_of m \<noteq> [] \<longrightarrow> (\<exists>v. PhoneInputBase (countryOptions m) hk p st = Inr v))"
proof (intro conjI impI)
  assume "values_of m \<noteq> []"
  then obtain c cs where "values_of m = c # cs"
    by (cases "values_of m") auto
  then have "selectedCountryOption (countryOptions m) (iso_state hk st) \<noteq> None"
    by (simp add: selectedCountryOption_def countryOptions_def split: option.splits)
  then show "\<exists>v. PhoneInputBase (countryOptions m) hk p st = Inr v"
    by (auto simp: PhoneInputBase_def)
next
  assume "c \<in> set (values_of m) \<and> distinct (map iso (values_of m))"
  then have "find (\<lambda>x. iso x = iso c) (values_of m) = Some c"
    by (simp add: find_distinct_iso)
  then show "selectedCountryOption (countryOptions m) (iso c) = Some (createSelectOption c)"
    by (simp add: selectedCountryOption_def countryOptions_def find_map_createSelectOption)
next
  assume "i \<in> iso ` set (values_of m)"
  then obtain c where c: "find (\<lambda>x. iso x = i) (values_of m) = Some c"
    by (cases "find (\<lambda>x. iso x = i) (values_of m)") (auto simp: find_None_iff)
  then have "c \<in> set (values_of m)" "iso c = i"
    by (auto simp: find_Some_iff)
  moreover from c have "selectedCountryOption (countryOptions m) i = Some (createSelectOption c)"
    by (simp add: selectedCountryOption_def countryOptions_def find_map_createSelectOption)
  ultimately show "\<exists>c \<in> set (values_of m). iso c = i \<and>
         selectedCountryOption (countryOptions m) i = Some (createSelectOption c)"
    by blast
next
  assume a: "i \<notin> iso ` set (values_of m) \<and> values_of m \<noteq> []"
  then have none: "find (\<lambda>x. iso x = i) (values_of m) = None"
    by (auto simp: find_None_iff)
  from a obtain c cs where cs: "values_of m = c # cs"
    by (cases "values_of m") auto
  have "selectedCountryOption (map createSelectOption (values_of m)) i =
          (case map createSelectOption (values_of m) of [] \<Rightarrow> None | first # _ \<Rightarrow> Some first)"
    by (simp only: selectedCountryOption_def find_map_createSelectOption none option.map option.case)
  then show "selectedCountryOption (countryOptions m) i = Some (createSelectOption (hd (values_of m)))"
    by (simp add: countryOptions_def cs)
qed

theorem selectedCountryOption_lookup_witness:
  "\<lparr> iso = ''gr'', name = ''Greece'', code = ''30'' \<rparr> \<in> set (values_of sample_map)
   \<and> distinct (map iso (values_of sample_map))
   \<and> selectedCountryOption (countryOptions sample_map) ''gr'' =
       Some (createSelectOption \<lparr> iso = ''gr'', name = ''Greece'', code = ''30'' \<rparr>)
   \<and> ''zz'' \<notin> iso ` set (values_of sample_map)
   \<and> values_of sample_map \<noteq> []
   \<and> selectedCountryOption (countryOptions sample_map) ''zz'' =
       Some (createSelectOption \<lparr> iso = ''us'', name = ''United States'', code = ''1'' \<rparr>)
   \<and> ''us'' \<in> iso ` set (values_of sample_map)
   \<and> (\<exists>c \<in> set (values_of sample_map). iso c = ''us'' \<and>
         selectedCountryOption (countryOptions sample_map) ''us'' = Some (createSelectOption c))"
  using selectedCountryOption_lookup [where m = sample_map
      and c = "\<lparr> iso = ''gr'', name = ''Greece'', code = ''30'' \<rparr>" and i = "''zz''"
      and hk = sample_hook and p = Map.empty and st = "(''us'', ''1'')"]
    selectedCountryOption_lookup [where m = sample_map
      and c = "\<lparr> iso = ''gr'', name = ''Greece'', code = ''30'' \<rparr>" and i = "''us''"
      and hk = sample_hook and p = Map.empty and st = "(''us'', ''1'')"]
  by (simp add: sample_map_def values_of_def)

section \<open>The change event\<close>

text \<open>
  Claim C3, as amended. When the caller supplied an \<open>onChange\<close> function, the component
  calls it once after the first render, with the combined number of that render, and
  after every later step it calls it exactly once, with an event whose \<open>target.value\<close>
  is the new combined number, when the combined number has changed, and not at all when
  it has not changed. When the \<open>onChange\<close> prop is missing, \<open>undefined\<close> or \<open>null\<close>,
  nothing is emitted. This is said of the component as it runs: of every state reached
  from the first render by any sequence of events, and of any next event.
\<close>

theorem onChange_effect_amended:
  assumes w: "w = run hk (mount m hk p0 st0) evs"
    and w': "w' = step hk r w ev"
  shows "(current_props w' ''onChange'' = Some (Fn f) \<longrightarrow>
            onChange_calls (performed w') =
              onChange_calls (performed w) @
              (if numberWithCode hk (hook_state w') \<noteq> numberWithCode hk (hook_state w)
               then [(f, \<lparr> target_value = numberWithCode hk (hook_state w') \<rparr>)] else []))
       \<and> (current_props w' ''onChange'' = None \<or> current_props w' ''onChange'' = Some Undefined \<or>
          current_props w' ''onChange'' = Some Null \<longrightarrow>
            onChange_calls (performed w') = onChange_calls (performed w))
       \<and> (p0 ''onChange'' = Some (Fn f) \<longrightarrow>
            onChange_calls (performed (mount m hk p0 st0)) =
              [(f, \<lparr> target_value = numberWithCode hk st0 \<rparr>)])"
proof -
  have dep: "effect_dep w = Some (numberWithCode hk (hook_state w))"
    unfolding w by (rule effect_dep_run) (rule effect_dep_mount)
  have perf: "onChange_calls (performed w') =
      onChange_calls (performed w) @
      onChange_calls (useEffect (Some (numberWithCode hk (hook_state w)))
        (numberWithCode hk (hook_state w'))
        (callOnChangeProp (current_props w') (numberWithCode hk (hook_state w'))))"
    unfolding w'
    by (simp add: performed_step onChange_calls_append onChange_calls_handler_effects dep)
  show ?thesis
  proof (intro conjI impI)
    assume "current_props w' ''onChange'' = Some (Fn f)"
    then show "onChange_calls (performed w') =
        onChange_calls (performed w) @
        (if numberWithCode hk (hook_state w') \<noteq> numberWithCode hk (hook_state w)
         then [(f, \<lparr> target_value = numberWithCode hk (hook_state w') \<rparr>)] else [])"
      by (simp add: perf useEffect_def onChange_calls_callOnChangeProp_Fn onChange_calls_Nil)
  next
    assume "current_props w' ''onChange'' = None \<or> current_props w' ''onChange'' = Some Undefined \<or>
        current_props w' ''onChange'' = Some Null"
    then show "onChange_calls (performed w') = onChange_calls (performed w)"
      by (simp add: perf useEffect_def onChange_calls_callOnChangeProp_nullish onChange_calls_Nil)
  next
    assume "p0 ''onChange'' = Some (Fn f)"
    then show "onChange_calls (performed (mount m hk p0 st0)) =
        [(f, \<lparr> target_value = numberWithCode hk st0 \<rparr>)]"
      by (simp add: mount_def Let_def useEffect_def onChange_calls_callOnChangeProp_Fn)
  qed
qed

theorem onChange_effect_amended_witness:
  "[''onChange'' \<mapsto> Fn (External ''f'')] ''onChange'' = Some (Fn (External ''f''))
   \<and> onChange_calls (performed
         (mount sample_map sample_hook [''onChange'' \<mapsto> Fn (External ''f'')] (''us'', ''1555''))) =
       [(External ''f'', \<lparr> target_value = ''+1555'' \<rparr>)]
   \<and> onChange_calls (performed (step sample_hook (Some HTMLInputElement)
         (run sample_hook
            (mount sample_map sample_hook [''onChange'' \<mapsto> Fn (External ''f'')] (''us'', ''1555'')) [])
         (Change \<lparr> target_value = ''15551'' \<rparr>))) =
       [(External ''f'', \<lparr> target_value = ''+1555'' \<rparr>),
        (External ''f'', \<lparr> target_value = ''+15551'' \<rparr>)]
   \<and> onChange_calls (performed (step sample_hook (Some HTMLInputElement)
         (run sample_hook
            (mount sample_map sample_hook [''onChange'' \<mapsto> Fn (External ''f'')] (''us'', ''1555'')) [])
         (Change \<lparr> target_value = ''1555'' \<rparr>))) =
       [(External ''f'', \<lparr> target_value = ''+1555'' \<rparr>)]
   \<and> (Map.empty :: props) ''onChange'' = None
   \<and> onChange_calls (performed (step sample_hook (Some HTMLInputElement)
         (run sample_hook (mount sample_map sample_hook Map.empty (''us'', ''1555'')) [])
         (Change \<lparr> target_value = ''15551'' \<rparr>))) = []"
proof -
  let ?P = "[''onChange'' \<mapsto> Fn (External ''f'')] :: props"
  let ?w = "run sample_hook (mount sample_map sample_hook ?P (''us'', ''1555'')) []"
  let ?v = "run sample_hook (mount sample_map sample_hook Map.empty (''us'', ''1555'')) []"
  have w: "hook_state ?w = (''us'', ''1555'')" "current_props ?w = ?P"
    "onChange_calls (performed ?w) = [(External ''f'', \<lparr> target_value = ''+1555'' \<rparr>)]"
    by (simp_all add: run_def mount_def Let_def useEffect_def callOnChangeProp_def
        onChange_calls_def sample_hook_def)
  have v: "hook_state ?v = (''us'', ''1555'')" "current_props ?v = Map.empty"
    "onChange_calls (performed ?v) = []"
    by (simp_all add: run_def mount_def Let_def useEffect_def callOnChangeProp_def
        onChange_calls_def sample_hook_def)
  have changed: "hook_state (step sample_hook (Some HTMLInputElement) ?w
        (Change \<lparr> target_value = ''15551'' \<rparr>)) = (''us'', ''15551'')"
    "current_props (step sample_hook (Some HTMLInputElement) ?w
        (Change \<lparr> target_value = ''15551'' \<rparr>)) = ?P"
    by (simp_all add: step_def Let_def w handlePhoneNumberChange_def startsWith_def
        hookCalls_def apply_calls_def, simp add: sample_hook_def)
  have same: "hook_state (step sample_hook (Some HTMLInputElement) ?w
        (Change \<lparr> target_value = ''1555'' \<rparr>)) = (''us'', ''1555'')"
    "current_props (step sample_hook (Some HTMLInputElement) ?w
        (Change \<lparr> target_value = ''1555'' \<rparr>)) = ?P"
    by (simp_all add: step_def Let_def w handlePhoneNumberChange_def startsWith_def
        hookCalls_def apply_calls_def, simp add: sample_hook_def)
  have none: "hook_state (step sample_hook (Some HTMLInputElement) ?v
        (Change \<lparr> target_value = ''15551'' \<rparr>)) = (''us'', ''15551'')"
    "current_props (step sample_hook (Some HTMLInputElement) ?v
        (Change \<lparr> target_value = ''15551'' \<rparr>)) = Map.empty"
    by (simp_all add: step_def Let_def v handlePhoneNumberChange_def startsWith_def
        hookCalls_def apply_calls_def, simp add: sample_hook_def)
  have nwc: "numberWithCode sample_hook (''us'', ''15551'') = ''+15551''"
    "numberWithCode sample_hook (''us'', ''1555'') = ''+1555''"
    by (simp_all add: sample_hook_def)
  show ?thesis
    using onChange_effect_amended [OF refl refl, where hk = sample_hook and m = sample_map
        and ?p0.0 = ?P and ?st0.0 = "(''us'', ''1555'')" and evs = "[]"
        and r = "Some HTMLInputElement" and ev = "Change \<lparr> target_value = ''15551'' \<rparr>"
        and f = "External ''f''"]
      onChange_effect_amended [OF refl refl, where hk = sample_hook and m = sample_map
        and ?p0.0 = ?P and ?st0.0 = "(''us'', ''1555'')" and evs = "[]"
        and r = "Some HTMLInputElement" and ev = "Change \<lparr> target_value = ''1555'' \<rparr>"
        and f = "External ''f''"]
      onChange_effect_amended [OF refl refl, where hk = sample_hook and m = sample_map
        and ?p0.0 = Map.empty and ?st0.0 = "(''us'', ''1555'')" and evs = "[]"
        and r = "Some HTMLInputElement" and ev = "Change \<lparr> target_value = ''15551'' \<rparr>"
        and f = "External ''f''"]
    by (simp add: w v changed same none nwc)
qed

text \<open>
  The claim as it is written fails for a caller that passes no \<open>onChange\<close>: the combined
  number changes from \<open>+1555\<close> to \<open>+15551\<close> and no event is emitted.
\<close>

theorem onChange_effect_counterexample:
  "''+1555'' \<noteq> ''+15551''
   \<and> useEffect (Some ''+1555'') ''+15551'' (callOnChangeProp Map.empty ''+15551'') = []
   \<and> numberWithCode sample_hook (hook_state (step sample_hook (Some HTMLInputElement)
         (mount sample_map sample_hook Map.empty (''us'', ''1555''))
         (Change \<lparr> target_value = ''15551'' \<rparr>))) = ''+15551''
   \<and> numberWithCode sample_hook
         (hook_state (mount sample_map sample_hook Map.empty (''us'', ''1555''))) = ''+1555''
   \<and> onChange_calls (performed (step sample_hook (Some HTMLInputElement)
         (mount sample_map sample_hook Map.empty (''us'', ''1555''))
         (Change \<lparr> target_value = ''15551'' \<rparr>))) = []"
  by (simp add: useEffect_def callOnChangeProp_def step_def mount_def Let_def
      handlePhoneNumberChange_def startsWith_def hookCalls_def apply_calls_def sample_hook_def
      onChange_calls_def)

section \<open>Choosing a country\<close>

text \<open>
  Claim C5. When an option is chosen in the select box while the number input is mounted,
  the handler calls \<open>setIso\<close> with the \<open>iso\<close> of the option's country and then moves the
  focus to the number input. \<open>setIso\<close> is its only call to the hook: neither
  \<open>setNumber\<close> nor \<open>setNumberAndIso\<close> is called.
\<close>

theorem Select_onChange_sets_iso_and_focuses:
  "r = Some el \<Longrightarrow>
     Select_onChange r opt = [Hook (SetIso (iso (country opt))), Focus el]
     \<and> hookCalls (Select_onChange r opt) = [SetIso (iso (country opt))]
     \<and> apply_calls hk (hookCalls (Select_onChange r opt)) st = setIso hk (iso (country opt)) st"
  by (simp add: Select_onChange_def hookCalls_def apply_calls_def)

theorem Select_onChange_sets_iso_and_focuses_witness:
  "Select_onChange (Some HTMLInputElement)
       (createSelectOption \<lparr> iso = ''gr'', name = ''Greece'', code = ''30'' \<rparr>) =
     [Hook (SetIso ''gr''), Focus HTMLInputElement]
   \<and> apply_calls sample_hook
       (hookCalls (Select_onChange (Some HTMLInputElement)
          (createSelectOption \<lparr> iso = ''gr'', name = ''Greece'', code = ''30'' \<rparr>)))
       (''us'', ''5551234'') = (''gr'', ''5551234'')"
  using Select_onChange_sets_iso_and_focuses [where r = "Some HTMLInputElement"
      and el = HTMLInputElement
      and opt = "createSelectOption \<lparr> iso = ''gr'', name = ''Greece'', code = ''30'' \<rparr>"
      and hk = sample_hook and st = "(''us'', ''5551234'')", OF refl]
  by (simp add: createSelectOption_def sample_hook_def hookCalls_def apply_calls_def)

section \<open>The option list is constant\<close>

text \<open>
  Claim C7. The option list is computed from \<open>IsoToCountryMap\<close> alone: one option for
  every value of the map, in the order of the map, made by \<open>createSelectOption\<close>. No
  operation of the component writes to it: the two handlers of the number input, the
  listener of a paste, the \<open>onChange\<close> of the select box and the effect that calls the
  \<open>onChange\<close> prop perform no write. So the list is the same after every step, and after
  any sequence of events from the first render it is the list computed from the map, with
  the entries of the map in it.
\<close>

theorem countryOptions_invariant:
  "countryOptions m =
     map (\<lambda>(k, c). \<lparr> searchTerm = iso c @ '' '' @ name c @ '' '' @ code c,
                      value_opt = iso c @ '' '' @ name c @ '' '' @ code c,
                      country = c \<rparr>) m
   \<and> writes (handlePaste pe) = []
   \<and> writes (handlePhoneNumberChange ce) = []
   \<and> writes (paste_listener (Input_props fmt p ''onPaste'') pe) = []
   \<and> writes (Select_onChange r opt) = []
   \<and> writes (useEffect prev nwc (callOnChangeProp p nwc)) = []
   \<and> module_countryOptions (mount m hk p0 st0) = countryOptions m
   \<and> module_countryOptions (step hk r w ev) = module_countryOptions w
   \<and> module_countryOptions (run hk (mount m hk p0 st0) evs) = countryOptions m
   \<and> map country (module_countryOptions (run hk (mount m hk p0 st0) evs)) = map snd m"
proof -
  have opts: "countryOptions m =
     map (\<lambda>(k, c). \<lparr> searchTerm = iso c @ '' '' @ name c @ '' '' @ code c,
                      value_opt = iso c @ '' '' @ name c @ '' '' @ code c,
                      country = c \<rparr>) m"
    by (simp add: countryOptions_def values_of_def createSelectOption_def split_def)
  have entries: "map country (countryOptions m) = map snd m"
    by (simp add: countryOptions_def values_of_def createSelectOption_def comp_def)
  have run: "module_countryOptions (run hk (mount m hk p0 st0) evs) = countryOptions m"
    by (simp add: run_module_countryOptions mount_module_countryOptions)
  show ?thesis
    unfolding run
    by (intro conjI opts entries writes_handlePaste writes_handlePhoneNumberChange
        writes_paste_listener writes_Select_onChange writes_useEffect
        mount_module_countryOptions step_module_countryOptions refl)
qed

theorem countryOptions_invariant_witness:
  "module_countryOptions
     (run sample_hook (mount sample_map sample_hook Map.empty (''us'', ''1''))
        [(Some HTMLInputElement, Paste \<lparr> clipboardData_text = ''+30 21'' \<rparr>),
         (Some HTMLInputElement,
          SelectCountry (createSelectOption \<lparr> iso = ''us'', name = ''United States'', code = ''1'' \<rparr>)),
         (Some HTMLInputElement, Rerender [''onPaste'' \<mapsto> Fn (External ''g'')]),
         (Some HTMLInputElement, Paste \<lparr> clipboardData_text = ''5551234'' \<rparr>),
         (Some HTMLInputElement, Change \<lparr> target_value = ''30 215'' \<rparr>)]) =
     [\<lparr> searchTerm = ''us United States 1'', value_opt = ''us United States 1'',
        country = \<lparr> iso = ''us'', name = ''United States'', code = ''1'' \<rparr> \<rparr>,
      \<lparr> searchTerm = ''gr Greece 30'', value_opt = ''gr Greece 30'',
        country = \<lparr> iso = ''gr'', name = ''Greece'', code = ''30'' \<rparr> \<rparr>]"
proof -
  have "countryOptions sample_map =
     [\<lparr> searchTerm = ''us United States 1'', value_opt = ''us United States 1'',
        country = \<lparr> iso = ''us'', name = ''United States'', code = ''1'' \<rparr> \<rparr>,
      \<lparr> searchTerm = ''gr Greece 30'', value_opt = ''gr Greece 30'',
        country = \<lparr> iso = ''gr'', name = ''Greece'', code = ''30'' \<rparr> \<rparr>]"
    using countryOptions_invariant [where m = sample_map and hk = sample_hook
        and ?p0.0 = Map.empty and ?st0.0 = "(''us'', ''1'')" and evs = "[]" and p = Map.empty
        and w = "mount sample_map sample_hook Map.empty (''us'', ''1'')" and ev = "Rerender Map.empty"
        and r = None and fmt = "''1''" and nwc = "''1''" and prev = None
        and pe = "\<lparr> clipboardData_text = ''1'' \<rparr>" and ce = "\<lparr> target_value = ''1'' \<rparr>"
        and opt = "createSelectOption \<lparr> iso = ''us'', name = ''United States'', code = ''1'' \<rparr>"]
    by (simp add: sample_map_def)
  then show ?thesis
    using countryOptions_invariant [where m = sample_map and hk = sample_hook
        and ?p0.0 = Map.empty and ?st0.0 = "(''us'', ''1'')" and p = Map.empty
        and w = "mount sample_map sample_hook Map.empty (''us'', ''1'')" and ev = "Rerender Map.empty"
        and r = None and fmt = "''1''" and nwc = "''1''" and prev = None
        and pe = "\<lparr> clipboardData_text = ''1'' \<rparr>" and ce = "\<lparr> target_value = ''1'' \<rparr>"
        and opt = "createSelectOption \<lparr> iso = ''us'', name = ''United States'', code = ''1'' \<rparr>"
        and evs = "[(Some HTMLInputElement, Paste \<lparr> clipboardData_text = ''+30 21'' \<rparr>),
         (Some HTMLInputElement,
          SelectCountry (createSelectOption \<lparr> iso = ''us'', name = ''United States'', code = ''1'' \<rparr>)),
         (Some HTMLInputElement, Rerender [''onPaste'' \<mapsto> Fn (External ''g'')]),
         (Some HTMLInputElement, Paste \<lparr> clipboardData_text = ''5551234'' \<rparr>),
         (Some HTMLInputElement, Change \<lparr> target_value = ''30 215'' \<rparr>)]"]
    by simp
qed

section \<open>The props of the number input\<close>

text \<open>
  Claim C8, as amended. The component gives the number input \<open>maxLength\<close> 25 when the
  caller's props carry no \<open>maxLength\<close>; a \<open>maxLength\<close> of the caller replaces it, since
  the remaining props are spread last. The change handler checks no length: it passes the
  delivered string on as it is.
\<close>

theorem maxLength_default_and_override:
  "(p ''maxLength'' = None \<longrightarrow> Input_props fmt p ''maxLength'' = Some (Num 25))
   \<and> (p ''maxLength'' = Some v \<longrightarrow> Input_props fmt p ''maxLength'' = Some v)
   \<and> hookCalls (handlePhoneNumberChange e) \<in>
       {[SetNumber (target_value e)], [SetNumberAndIso (target_value e)]}"
  by (simp add: Input_props_def map_add_def rest_of_maxLength handlePhoneNumberChange_def
      hookCalls_def Let_def)

theorem maxLength_default_and_override_witness:
  "(Map.empty :: props) ''maxLength'' = None
   \<and> Input_props ''555'' Map.empty ''maxLength'' = Some (Num 25)
   \<and> [''maxLength'' \<mapsto> Num 40] ''maxLength'' = Some (Num 40)
   \<and> Input_props ''555'' [''maxLength'' \<mapsto> Num 40] ''maxLength'' = Some (Num 40)
   \<and> [''maxLength'' \<mapsto> Undefined] ''maxLength'' = Some Undefined
   \<and> Input_props ''555'' [''maxLength'' \<mapsto> Undefined] ''maxLength'' = Some Undefined"
  using maxLength_default_and_override [where p = Map.empty and fmt = "''555''"
      and v = "Num 40" and e = "\<lparr> target_value = ''555'' \<rparr>"]
    maxLength_default_and_override [where p = "[''maxLength'' \<mapsto> Num 40]" and v = "Num 40"
      and fmt = "''555''" and e = "\<lparr> target_value = ''555'' \<rparr>"]
    maxLength_default_and_override [where p = "[''maxLength'' \<mapsto> Undefined]" and v = Undefined
      and fmt = "''555''" and e = "\<lparr> target_value = ''555'' \<rparr>"]
  by simp

text \<open>
  The claim as it is written fails for a caller that passes \<open>maxLength\<close> 40: the input is
  given 40, not 25, and a string of 26 characters is passed on by the change handler.
\<close>

theorem maxLength_counterexample:
  "Input_props ''555'' [''maxLength'' \<mapsto> Num 40] ''maxLength'' = Some (Num 40)
   \<and> length ''12345678901234567890123456'' = 26
   \<and> handlePhoneNumberChange \<lparr> target_value = ''12345678901234567890123456'' \<rparr> =
       [Hook (SetNumber ''12345678901234567890123456'')]"
  by (simp add: Input_props_def rest_of_def handlePhoneNumberChange_def startsWith_def)

text \<open>
  Claim C10. The number input is controlled: in every render, so after every event, its
  \<open>value\<close> is the \<open>formattedNumber\<close> of the hook's state, whatever the props of the
  caller are, and the paste handler calls \<open>preventDefault\<close> first and the setter of the
  hook after it.
\<close>

theorem input_value_is_formattedNumber:
  "Input_props (formattedNumber hk st) p ''value'' = Some (Str (formattedNumber hk st))
   \<and> (PhoneInputBase opts hk p (hook_state (run hk w evs)) = Inr v \<longrightarrow>
        Input v ''value'' = Some (Str (formattedNumber hk (hook_state (run hk w evs)))))
   \<and> (\<exists>c. handlePaste pe = [PreventDefault, Hook c])"
  by (auto simp: Input_props_def map_add_def rest_of_value PhoneInputBase_def handlePaste_def
      Let_def split: option.splits)

theorem input_value_is_formattedNumber_witness:
  "PhoneInputBase (countryOptions sample_map) sample_hook [''value'' \<mapsto> Str ''raw'']
     (hook_state (run sample_hook (mount sample_map sample_hook [''value'' \<mapsto> Str ''raw''] (''us'', ''''))
        [(Some HTMLInputElement,
          Paste \<lparr> clipboardData_text = ''+30 21'' \<rparr>)])) =
     Inr \<lparr> Select_value = ''gr Greece 30'',
           Select_options = countryOptions sample_map,
           SelectButton_text = ''gr'',
           dial_code_text = ''+30'',
           Input = Input_props ''30 21'' [''value'' \<mapsto> Str ''raw''] \<rparr>
   \<and> Input_props ''30 21'' [''value'' \<mapsto> Str ''raw''] ''value'' = Some (Str ''30 21'')"
proof -
  have st: "hook_state (run sample_hook (mount sample_map sample_hook [''value'' \<mapsto> Str ''raw''] (''us'', ''''))
        [(Some HTMLInputElement,
          Paste \<lparr> clipboardData_text = ''+30 21'' \<rparr>)]) = (''gr'', ''30 21'')"
    by (simp add: run_def step_def mount_def sample_hook_def hookCalls_def apply_calls_def
        handlePaste_def startsWith_def Let_def Input_props_def rest_of_def)
  have fmt: "formattedNumber sample_hook (''gr'', ''30 21'') = ''30 21''"
    by (simp add: sample_hook_def)
  have view: "PhoneInputBase (countryOptions sample_map) sample_hook [''value'' \<mapsto> Str ''raw'']
     (hook_state (run sample_hook (mount sample_map sample_hook [''value'' \<mapsto> Str ''raw''] (''us'', ''''))
        [(Some HTMLInputElement,
          Paste \<lparr> clipboardData_text = ''+30 21'' \<rparr>)])) =
     Inr \<lparr> Select_value = ''gr Greece 30'',
           Select_options = countryOptions sample_map,
           SelectButton_text = ''gr'',
           dial_code_text = ''+30'',
           Input = Input_props ''30 21'' [''value'' \<mapsto> Str ''raw''] \<rparr>"
    unfolding st
    by (simp add: PhoneInputBase_def selectedCountryOption_def countryOptions_def values_of_def
        sample_map_def createSelectOption_def sample_hook_def)
  from input_value_is_formattedNumber [where hk = sample_hook and opts = "countryOptions sample_map"
      and p = "[''value'' \<mapsto> Str ''raw'']"
      and w = "mount sample_map sample_hook [''value'' \<mapsto> Str ''raw''] (''us'', '''')"
      and evs = "[(Some HTMLInputElement,
          Paste \<lparr> clipboardData_text = ''+30 21'' \<rparr>)]", THEN conjunct2, THEN conjunct1,
      rule_format, OF view]
  have "Input_props ''30 21'' [''value'' \<mapsto> Str ''raw''] ''value'' = Some (Str ''30 21'')"
    by (simp add: st fmt)
  with view show ?thesis by simp
qed

section \<open>Searching the country list\<close>

text \<open>
  Claim C9. For every search term, the comparator accepts an option exactly when the
  lower-cased term is a substring of the lower-cased text \<open>iso name code\<close> of the
  option's country, and the options shown are the options accepted. When lower-casing
  works character by character, a term found in the ISO code, in the name or in the dial
  code is found in that text; and the comparator does not tell a term from its lower case.
\<close>

theorem comparator_case_insensitive_substring:
  "(comparator lc search (createSelectOption c) \<longleftrightarrow>
      sublist (lc search) (lc (iso c @ '' '' @ name c @ '' '' @ code c)))
   \<and> (opt \<in> set (Select_shown (comparator lc) search (countryOptions m)) \<longleftrightarrow>
      opt \<in> set (countryOptions m) \<and> sublist (lc search) (lc (searchTerm opt)))
   \<and> ((\<forall>a b. lc (a @ b) = lc a @ lc b) \<and>
       (sublist (lc search) (lc (iso c)) \<or> sublist (lc search) (lc (name c)) \<or>
        sublist (lc search) (lc (code c))) \<longrightarrow>
      comparator lc search (createSelectOption c))
   \<and> comparator toLowerCase_js (toLowerCase_js search) opt = comparator toLowerCase_js search opt"
proof (intro conjI impI)
  show "comparator lc search (createSelectOption c) \<longleftrightarrow>
      sublist (lc search) (lc (iso c @ '' '' @ name c @ '' '' @ code c))"
    by (simp add: comparator_sublist createSelectOption_def)
  show "opt \<in> set (Select_shown (comparator lc) search (countryOptions m)) \<longleftrightarrow>
      opt \<in> set (countryOptions m) \<and> sublist (lc search) (lc (searchTerm opt))"
    by (simp add: Select_shown_def comparator_sublist)
  show "comparator toLowerCase_js (toLowerCase_js search) opt = comparator toLowerCase_js search opt"
    by (simp add: comparator_def toLowerCase_js_idem)
next
  assume "(\<forall>a b. lc (a @ b) = lc a @ lc b) \<and>
       (sublist (lc search) (lc (iso c)) \<or> sublist (lc search) (lc (name c)) \<or>
        sublist (lc search) (lc (code c)))"
  then show "comparator lc search (createSelectOption c)"
    by (simp add: comparator_field)
qed

theorem comparator_case_insensitive_substring_witness:
  "(\<forall>a b. toLowerCase_js (a @ b) = toLowerCase_js a @ toLowerCase_js b)
   \<and> sublist (toLowerCase_js ''STATES'') (toLowerCase_js ''United States'')
   \<and> comparator toLowerCase_js ''STATES''
       (createSelectOption \<lparr> iso = ''us'', name = ''United States'', code = ''1'' \<rparr>)
   \<and> toLowerCase_js [CHR 0xC9, CHR ''Z'', CHR 0xD7, CHR ''1''] = [CHR 0xE9, CHR ''z'', CHR 0xD7, CHR ''1'']"
proof -
  have latin: "toLowerCase_js [CHR 0xC9, CHR ''Z'', CHR 0xD7, CHR ''1''] =
      [CHR 0xE9, CHR ''z'', CHR 0xD7, CHR ''1'']"
    by code_simp
  have hom: "\<forall>a b. toLowerCase_js (a @ b) = toLowerCase_js a @ toLowerCase_js b"
    by (simp add: toLowerCase_js_append)
  have sub: "sublist (toLowerCase_js ''STATES'') (toLowerCase_js ''United States'')"
    by code_simp
  have hyp: "(\<forall>a b. toLowerCase_js (a @ b) = toLowerCase_js a @ toLowerCase_js b) \<and>
       (sublist (toLowerCase_js ''STATES'')
          (toLowerCase_js (iso \<lparr> iso = ''us'', name = ''United States'', code = ''1'' \<rparr>)) \<or>
        sublist (toLowerCase_js ''STATES'')
          (toLowerCase_js (name \<lparr> iso = ''us'', name = ''United States'', code = ''1'' \<rparr>)) \<or>
        sublist (toLowerCase_js ''STATES'')
          (toLowerCase_js (code \<lparr> iso = ''us'', name = ''United States'', code = ''1'' \<rparr>)))"
    using hom sub by simp
  from comparator_case_insensitive_substring [where lc = toLowerCase_js and search = "''STATES''"
      and c = "\<lparr> iso = ''us'', name = ''United States'', code = ''1'' \<rparr>",
      THEN conjunct2, THEN conjunct2, THEN conjunct1, rule_format, OF hyp]
  show ?thesis using hom sub latin by simp
qed

end
